theory Spec2Isabelle
  imports Complex_Main "HOL-Library.Sublist" "HOL-Library.Multiset"
begin

section \<open>Text, as the collector and the dashboard handle it\<close>

text \<open>
  Python's \<open>str\<close> is modelled by \<open>string\<close>, a list of 8-bit characters holding the UTF-8
  encoding of the text. The string operations below are those of \<open>str\<close> on ASCII text,
  which is what \<open>ping\<close> prints: the Unicode line boundaries, white space and case
  mappings beyond ASCII are not modelled, and a byte above 0x7F is an ordinary character
  that none of the operations touches.
\<close>

definition utf8 :: "nat \<Rightarrow> string" where
  \<comment> \<open>the UTF-8 bytes of one code point, for the pictographs in message texts\<close>
  "utf8 n =
     (if n < 0x80 then [char_of n]
      else if n < 0x800 then [char_of (0xC0 + n div 64), char_of (0x80 + n mod 64)]
      else if n < 0x10000 then
        [char_of (0xE0 + n div 4096), char_of (0x80 + n div 64 mod 64), char_of (0x80 + n mod 64)]
      else
        [char_of (0xF0 + n div 262144), char_of (0x80 + n div 4096 mod 64),
         char_of (0x80 + n div 64 mod 64), char_of (0x80 + n mod 64)])"

definition lower_char :: "char \<Rightarrow> char" where
  "lower_char c =
     (let n = (of_char c :: nat) in if 65 \<le> n \<and> n \<le> 90 then char_of (n + 32) else c)"

definition lower :: "string \<Rightarrow> string" where
  \<comment> \<open>\<open>str.lower()\<close>\<close>
  "lower s = map lower_char s"

definition is_space :: "char \<Rightarrow> bool" where
  \<comment> \<open>\<open>str.isspace()\<close> on ASCII: tab, LF, VT, FF, CR, FS, GS, RS, US and the blank\<close>
  "is_space c = (let n = (of_char c :: nat) in (9 \<le> n \<and> n \<le> 13) \<or> (28 \<le> n \<and> n \<le> 32))"

definition is_linebreak :: "char \<Rightarrow> bool" where
  \<comment> \<open>the ASCII line boundaries of \<open>str.splitlines()\<close>: LF, VT, FF, CR, FS, GS, RS\<close>
  "is_linebreak c = (let n = (of_char c :: nat) in (10 \<le> n \<and> n \<le> 13) \<or> (28 \<le> n \<and> n \<le> 30))"

fun contains :: "string \<Rightarrow> string \<Rightarrow> bool" where
  \<comment> \<open>\<open>sub in s\<close>\<close>
  "contains sub [] = (sub = [])"
| "contains sub (c # cs) = (prefix sub (c # cs) \<or> contains sub cs)"

definition skip_lf :: "char \<Rightarrow> string \<Rightarrow> string" where
  \<comment> \<open>after a CR, a directly following LF belongs to the same line boundary\<close>
  "skip_lf c cs =
     (case cs of [] \<Rightarrow> [] | d # ds \<Rightarrow> if c = CHR 0x0D \<and> d = CHR 0x0A then ds else cs)"

lemma length_skip_lf: "length (skip_lf c cs) \<le> length cs"
  by (simp add: skip_lf_def split: list.splits)

lemma length_after_break:
  assumes "dropWhile P xs = b # rest"
  shows "length (skip_lf b rest) < length xs"
proof -
  have "length (dropWhile P xs) \<le> length xs"
    by (rule length_dropWhile_le)
  with assms have "length rest < length xs"
    by simp
  with length_skip_lf [of b rest] show ?thesis
    by simp
qed

function splitlines :: "string \<Rightarrow> string list" where
  \<comment> \<open>\<open>str.splitlines()\<close>: no line for the empty text after the last boundary\<close>
  "splitlines [] = []"
| "splitlines (c # cs) =
     (takeWhile (\<lambda>x. \<not> is_linebreak x) (c # cs)) #
       (case dropWhile (\<lambda>x. \<not> is_linebreak x) (c # cs) of
          [] \<Rightarrow> []
        | b # rest \<Rightarrow> splitlines (skip_lf b rest))"
  by pat_completeness auto
termination
proof (relation "measure length")
  show "wf (measure length)"
    by simp
next
  fix c :: char and cs b rest
  assume "dropWhile (\<lambda>x. \<not> is_linebreak x) (c # cs) = b # rest"
  then have "length (skip_lf b rest) < length (c # cs)"
    by (rule length_after_break)
  then show "(skip_lf b rest, c # cs) \<in> measure length"
    by simp
qed

fun split_sep :: "string \<Rightarrow> string \<Rightarrow> string list" where
  \<comment> \<open>\<open>s.split(sep)\<close> for a non-empty separator: cut at the leftmost occurrences\<close>
  "split_sep sep [] = [[]]"
| "split_sep sep (c # cs) =
     (if sep \<noteq> [] \<and> prefix sep (c # cs) then [] # split_sep sep (drop (length sep - 1) cs)
      else (case split_sep sep cs of [] \<Rightarrow> [[c]] | l # ls \<Rightarrow> (c # l) # ls))"

lemma length_dropWhile_less_Suc [termination_simp]:
  "length (dropWhile P cs) < Suc (length cs)"
  by (simp add: le_imp_less_Suc length_dropWhile_le)

fun split_ws :: "string \<Rightarrow> string list" where
  \<comment> \<open>\<open>s.split()\<close>: the maximal runs of characters that are not white space\<close>
  "split_ws [] = []"
| "split_ws (c # cs) =
     (if is_space c then split_ws cs
      else (c # takeWhile (\<lambda>x. \<not> is_space x) cs) # split_ws (dropWhile (\<lambda>x. \<not> is_space x) cs))"

fun replace :: "string \<Rightarrow> string \<Rightarrow> string \<Rightarrow> string" where
  \<comment> \<open>\<open>s.replace(old, new)\<close> for a non-empty \<open>old\<close>\<close>
  "replace old new [] = []"
| "replace old new (c # cs) =
     (if old \<noteq> [] \<and> prefix old (c # cs) then new @ replace old new (drop (length old - 1) cs)
      else c # replace old new cs)"

definition strip :: "string \<Rightarrow> string" where
  \<comment> \<open>\<open>s.strip()\<close>\<close>
  "strip s = rev (dropWhile is_space (rev (dropWhile is_space s)))"

fun str_nat :: "nat \<Rightarrow> string" where
  \<comment> \<open>\<open>str(n)\<close> of a non-negative integer\<close>
  "str_nat n =
     (if n < 10 then [char_of (48 + n)] else str_nat (n div 10) @ [char_of (48 + n mod 10)])"

section \<open>The ping probe (main.py)\<close>

text \<open>
  \<open>float(s)\<close> is Python's built-in, not code of this program: it is the parameter
  \<open>flt\<close>, with \<open>None\<close> for a \<open>ValueError\<close>. Numbers are \<open>real\<close>; the integer sentinel
  \<open>-1\<close> is the real \<open>-1\<close>, as the REAL column of the store holds it.
\<close>

definition first_token :: "(string \<Rightarrow> real option) \<Rightarrow> string \<Rightarrow> real option" where
  \<comment> \<open>\<open>float(part.split()[0].replace("ms", "").strip())\<close> inside
      \<open>try ... except (ValueError, IndexError): pass\<close>; \<open>None\<close> is the \<open>pass\<close>\<close>
  "first_token flt part =
     (case split_ws part of
        [] \<Rightarrow> None
      | tok # _ \<Rightarrow> flt (strip (replace ''ms'' [] tok)))"

definition parse_line :: "(string \<Rightarrow> real option) \<Rightarrow> string \<Rightarrow> real option" where
  \<comment> \<open>one round of the loop over the lines: \<open>Some v\<close> is \<open>return v\<close>, \<open>None\<close> goes on
      to the next line\<close>
  "parse_line flt line =
     (if contains ''time='' (lower line) \<or> contains ''time<'' (lower line) then
        if contains ''time='' (lower line) then
          (let parts = split_sep ''time='' (lower line)
           in if length parts > 1 then first_token flt (parts ! 1) else None)
        else if contains ''time<'' (lower line) then
          (let parts = split_sep ''time<'' (lower line)
           in if length parts > 1 then first_token flt (parts ! 1) else None)
        else None
      else None)"

fun parse_lines :: "(string \<Rightarrow> real option) \<Rightarrow> string list \<Rightarrow> real" where
  "parse_lines flt [] = -1"
| "parse_lines flt (line # rest) =
     (case parse_line flt line of Some v \<Rightarrow> v | None \<Rightarrow> parse_lines flt rest)"

definition parse_ping_time :: "(string \<Rightarrow> real option) \<Rightarrow> string \<Rightarrow> real" where
  "parse_ping_time flt output = parse_lines flt (splitlines output)"

datatype proc_result =
    Completed string  \<comment> \<open>exit status 0; the decoded standard output\<close>
  | CalledProcessError int  \<comment> \<open>non-zero exit status\<close>
  | OSError  \<comment> \<open>the command could not be run\<close>
  | UnicodeDecodeError  \<comment> \<open>the output is not UTF-8\<close>

definition ping_host ::
  "(string \<Rightarrow> real option) \<Rightarrow> bool \<Rightarrow> (string list \<Rightarrow> proc_result) \<Rightarrow> string \<Rightarrow> string \<times> real"
where
  \<comment> \<open>\<open>windows\<close> is \<open>platform.system().lower() == "windows"\<close>; \<open>run\<close> is
      \<open>subprocess.check_output(...).decode()\<close>; the bare \<open>except\<close> takes every failure\<close>
  "ping_host flt windows run host =
     (let param = (if windows then ''-n'' else ''-c'')
      in case run [''ping'', param, ''1'', host] of
           Completed output \<Rightarrow> (''UP'', parse_ping_time flt output)
         | _ \<Rightarrow> (''DOWN'', -1))"

definition decimal_float :: "string \<Rightarrow> real option" where
  \<comment> \<open>\<open>float\<close> on plain decimal literals (digits, at most one point, at least one digit),
      with their exact decimal value; other texts are a \<open>ValueError\<close> here. It serves as
      \<open>flt\<close> in the worked examples, all of which stay within such literals and texts
      that \<open>float\<close> rejects.\<close>
  "decimal_float s =
     (let is_digit = (\<lambda>c. 48 \<le> (of_char c :: nat) \<and> (of_char c :: nat) \<le> 57);
          num = (\<lambda>ds. foldl (\<lambda>a c. 10 * a + (of_char c - 48)) (0::nat) ds);
          ip = takeWhile is_digit s;
          rest = dropWhile is_digit s
      in case rest of
           [] \<Rightarrow> if ip = [] then None else Some (real (num ip))
         | c # fp \<Rightarrow>
             if c = CHR ''.'' \<and> list_all is_digit fp \<and> (ip \<noteq> [] \<or> fp \<noteq> [])
             then Some (real (num ip) + real (num fp) / 10 ^ length fp)
             else None)"

section \<open>The store (log.db)\<close>

text \<open>
  One row of each table, with the columns of the \<open>CREATE TABLE\<close> statements of
  \<open>init_db\<close>. A table is its rows together with the counter that \<open>AUTOINCREMENT\<close>
  keeps in \<open>sqlite_sequence\<close>. The database is the pair of tables, each of which may
  not exist yet; \<open>sqlite3.connect\<close> on an absent file opens an empty database, so the
  absent file is the database without tables. The errors of SQLite that depend on the
  machine (a locked file, a full disk) are not modelled: the one error of the model
  is the statement on a table that does not exist.
\<close>

type_synonym sample = "string \<times> real \<times> real \<times> real \<times> string \<times> real"
  \<comment> \<open>\<open>(timestamp, cpu, memory, disk, ping_status, ping_ms)\<close>\<close>

record system_row =
  log_id :: int
  log_timestamp :: string
  log_cpu :: real
  log_memory :: real
  log_disk :: real
  log_ping_status :: string
  log_ping_ms :: real

record alert_row =
  alert_id :: int
  alert_timestamp :: string
  alert_type :: string
  alert_value :: real
  alert_threshold :: real
  alert_message :: string

record system_table =
  log_rows :: "system_row list"
  log_seq :: int

record alerts_table =
  alert_rows :: "alert_row list"
  alert_seq :: int

record db =
  system_log :: "system_table option"
  alerts_log :: "alerts_table option"

datatype error =
    OperationalError string  \<comment> \<open>\<open>sqlite3.OperationalError\<close> with its text\<close>
  | OtherError string  \<comment> \<open>any other \<open>Exception\<close>, raised by library code\<close>

definition no_such_table :: "string \<Rightarrow> error" where
  "no_such_table name = OperationalError (''no such table: '' @ name)"

definition missing_file :: db where
  "missing_file = \<lparr>system_log = None, alerts_log = None\<rparr>"

definition CPU_THRESHOLD :: real where "CPU_THRESHOLD = 80.0"
definition MEMORY_THRESHOLD :: real where "MEMORY_THRESHOLD = 85.0"
definition DISK_THRESHOLD :: real where "DISK_THRESHOLD = 90.0"

definition init_db :: "db \<Rightarrow> db" where
  \<comment> \<open>\<open>CREATE TABLE IF NOT EXISTS\<close>, once for each table\<close>
  "init_db d =
     \<lparr>system_log =
        (case system_log d of None \<Rightarrow> Some \<lparr>log_rows = [], log_seq = 0\<rparr> | Some t \<Rightarrow> Some t),
      alerts_log =
        (case alerts_log d of None \<Rightarrow> Some \<lparr>alert_rows = [], alert_seq = 0\<rparr> | Some t \<Rightarrow> Some t)\<rparr>"

definition next_rowid :: "int list \<Rightarrow> int \<Rightarrow> int" where
  \<comment> \<open>the key \<open>AUTOINCREMENT\<close> gives a new row: one more than the largest key of the
      table (1 in an empty table), and more than every key the counter has seen\<close>
  "next_rowid ids seq = max (if ids = [] then 1 else Max (set ids) + 1) (seq + 1)"

definition order_by_id_desc :: "('r \<Rightarrow> int) \<Rightarrow> 'r list \<Rightarrow> 'r list" where
  \<comment> \<open>\<open>ORDER BY id DESC\<close>\<close>
  "order_by_id_desc key rows = sort_key (\<lambda>r. - key r) rows"

definition order_by_id :: "('r \<Rightarrow> int) \<Rightarrow> 'r list \<Rightarrow> 'r list" where
  \<comment> \<open>ascending order of the key, \<open>sort_values('id')\<close> of the dashboard\<close>
  "order_by_id key rows = sort_key key rows"

definition insert_log :: "sample \<Rightarrow> db \<Rightarrow> error + db" where
  "insert_log data d =
     (case system_log d of
        None \<Rightarrow> Inl (no_such_table ''system_log'')
      | Some t \<Rightarrow>
          (case data of (timestamp, cpu, memory, disk, ping_status, ping_ms) \<Rightarrow>
             let new_id = next_rowid (map log_id (log_rows t)) (log_seq t);
                 row = \<lparr>log_id = new_id, log_timestamp = timestamp, log_cpu = cpu,
                        log_memory = memory, log_disk = disk,
                        log_ping_status = ping_status, log_ping_ms = ping_ms\<rparr>
             in Inr (d\<lparr>system_log := Some \<lparr>log_rows = log_rows t @ [row], log_seq = new_id\<rparr>\<rparr>)))"

definition insert_alert :: "string \<Rightarrow> string \<Rightarrow> real \<Rightarrow> real \<Rightarrow> string \<Rightarrow> db \<Rightarrow> error + db" where
  "insert_alert timestamp atype val threshold message d =
     (case alerts_log d of
        None \<Rightarrow> Inl (no_such_table ''alerts_log'')
      | Some t \<Rightarrow>
          let new_id = next_rowid (map alert_id (alert_rows t)) (alert_seq t);
              row = \<lparr>alert_id = new_id, alert_timestamp = timestamp, alert_type = atype,
                     alert_value = val, alert_threshold = threshold, alert_message = message\<rparr>
          in Inr (d\<lparr>alerts_log := Some \<lparr>alert_rows = alert_rows t @ [row], alert_seq = new_id\<rparr>\<rparr>))"

section \<open>The alert evaluator (main.py)\<close>

text \<open>
  The text of a float inside an f-string, \<open>f"{cpu}"\<close>, is the parameter \<open>fstr\<close>. The
  console output of \<open>print\<close> is not part of the model.
\<close>

definition alert_text :: "(real \<Rightarrow> string) \<Rightarrow> string \<Rightarrow> real \<Rightarrow> string" where
  \<comment> \<open>the three messages differ in the words between \<open>ALERT:\<close> and the value\<close>
  "alert_text fstr what v =
     utf8 0x26A0 @ utf8 0xFE0F @ ''  ALERT: '' @ what @ '' ('' @ fstr v @ ''%)''"

definition alerts_triggered ::
  "(real \<Rightarrow> string) \<Rightarrow> sample \<Rightarrow> (string \<times> real \<times> real \<times> string) list"
where
  \<comment> \<open>the list \<open>alerts_triggered\<close> that the three checks of \<open>check_alerts\<close> build\<close>
  "alerts_triggered fstr data =
     (case data of (timestamp, cpu, memory, disk, ping_status, ping_ms) \<Rightarrow>
        (if cpu > CPU_THRESHOLD
         then [(''CPU'', cpu, CPU_THRESHOLD, alert_text fstr ''High CPU usage!'' cpu)] else []) @
        (if memory > MEMORY_THRESHOLD
         then [(''MEMORY'', memory, MEMORY_THRESHOLD, alert_text fstr ''High Memory usage!'' memory)]
         else []) @
        (if disk > DISK_THRESHOLD
         then [(''DISK'', disk, DISK_THRESHOLD, alert_text fstr ''Low Disk Space!'' disk)] else []))"

fun insert_alerts :: "string \<Rightarrow> (string \<times> real \<times> real \<times> string) list \<Rightarrow> db \<Rightarrow> error + db" where
  \<comment> \<open>the loop \<open>for alert_type, value, threshold, message in alerts_triggered\<close>\<close>
  "insert_alerts timestamp [] d = Inr d"
| "insert_alerts timestamp ((atype, val, threshold, message) # rest) d =
     (case insert_alert timestamp atype val threshold message d of
        Inl e \<Rightarrow> Inl e
      | Inr d' \<Rightarrow> insert_alerts timestamp rest d')"

definition check_alerts :: "(real \<Rightarrow> string) \<Rightarrow> sample \<Rightarrow> db \<Rightarrow> error + (bool \<times> db)" where
  "check_alerts fstr data d =
     (case insert_alerts (fst data) (alerts_triggered fstr data) d of
        Inl e \<Rightarrow> Inl e
      | Inr d' \<Rightarrow> Inr (length (alerts_triggered fstr data) > 0, d'))"

section \<open>The collector loop (main.py)\<close>

text \<open>
  What one tick reads from the machine: the clock, the three \<open>psutil\<close> percentages, the
  platform and the behaviour of the \<open>ping\<close> subprocess.
\<close>

record reading =
  now :: string
  cpu_percent :: real
  memory_percent :: real
  disk_percent :: real
  windows :: bool
  subprocess :: "string list \<Rightarrow> proc_result"

definition get_system_info :: "(string \<Rightarrow> real option) \<Rightarrow> reading \<Rightarrow> sample" where
  "get_system_info flt r =
     (case ping_host flt (windows r) (subprocess r) ''8.8.8.8'' of
        (ping_status, ping_ms) \<Rightarrow>
          (now r, cpu_percent r, memory_percent r, disk_percent r, ping_status, ping_ms))"

definition tick ::
  "(string \<Rightarrow> real option) \<Rightarrow> (real \<Rightarrow> string) \<Rightarrow> reading \<Rightarrow> db \<Rightarrow> error option \<times> db"
where
  \<comment> \<open>one round of the loop; an exception ends it and leaves the store as it then is\<close>
  "tick flt fstr r d =
     (let row = get_system_info flt r
      in case insert_log row d of
           Inl e \<Rightarrow> (Some e, d)
         | Inr d1 \<Rightarrow>
             (case check_alerts fstr row d1 of
                Inl e \<Rightarrow> (Some e, d1)
              | Inr (_, d2) \<Rightarrow> (None, d2)))"

fun collect ::
  "(string \<Rightarrow> real option) \<Rightarrow> (real \<Rightarrow> string) \<Rightarrow> reading list \<Rightarrow> db \<Rightarrow> error option \<times> db"
where
  "collect flt fstr [] d = (None, d)"
| "collect flt fstr (r # rs) d =
     (case tick flt fstr r d of
        (Some e, d') \<Rightarrow> (Some e, d')
      | (None, d') \<Rightarrow> collect flt fstr rs d')"

definition show_last_entries :: "nat \<Rightarrow> db \<Rightarrow> error + system_row list" where
  \<comment> \<open>the rows it prints, in the order it prints them\<close>
  "show_last_entries limit d =
     (case system_log d of
        None \<Rightarrow> Inl (no_such_table ''system_log'')
      | Some t \<Rightarrow> Inr (rev (take limit (order_by_id_desc log_id (log_rows t)))))"

definition show_alerts_log :: "nat \<Rightarrow> db \<Rightarrow> error + (string \<times> string \<times> string) list" where
  \<comment> \<open>timestamp, type and message of the rows it prints; none for "No alerts triggered!"\<close>
  "show_alerts_log limit d =
     (case alerts_log d of
        None \<Rightarrow> Inl (no_such_table ''alerts_log'')
      | Some t \<Rightarrow>
          Inr (map (\<lambda>row. (alert_timestamp row, alert_type row, alert_message row))
                 (rev (take limit (order_by_id_desc alert_id (alert_rows t))))))"

definition count_total_records :: "db \<Rightarrow> error + (nat \<times> nat)" where
  \<comment> \<open>\<open>(log_count, alert_count)\<close>, the two numbers it prints\<close>
  "count_total_records d =
     (case system_log d of
        None \<Rightarrow> Inl (no_such_table ''system_log'')
      | Some t \<Rightarrow>
          (case alerts_log d of
             None \<Rightarrow> Inl (no_such_table ''alerts_log'')
           | Some a \<Rightarrow> Inr (length (log_rows t), length (alert_rows a))))"

definition collector_main ::
  "(string \<Rightarrow> real option) \<Rightarrow> (real \<Rightarrow> string) \<Rightarrow> (nat \<Rightarrow> reading) \<Rightarrow> db \<Rightarrow>
   (error + system_row list \<times> (string \<times> string \<times> string) list \<times> (nat \<times> nat)) \<times> db"
where
  \<comment> \<open>the \<open>__main__\<close> block: \<open>env i\<close> is what tick \<open>i\<close> reads; the result is the first
      exception or the three reports, and the store the run leaves\<close>
  "collector_main flt fstr env d =
     (case collect flt fstr (map env [0..<5]) (init_db d) of
        (Some e, d') \<Rightarrow> (Inl e, d')
      | (None, d') \<Rightarrow>
          (case show_last_entries 5 d' of
             Inl e \<Rightarrow> (Inl e, d')
           | Inr entries \<Rightarrow>
               (case show_alerts_log 10 d' of
                  Inl e \<Rightarrow> (Inl e, d')
                | Inr alerts \<Rightarrow>
                    (case count_total_records d' of
                       Inl e \<Rightarrow> (Inl e, d')
                     | Inr counts \<Rightarrow> (Inr (entries, alerts, counts), d')))))"

inductive reachable :: "(string \<Rightarrow> real option) \<Rightarrow> (real \<Rightarrow> string) \<Rightarrow> db \<Rightarrow> bool"
  for flt :: "string \<Rightarrow> real option" and fstr :: "real \<Rightarrow> string"
where
  \<comment> \<open>the stores the collector produces: it starts without a file, creates the tables,
      runs ticks, and may be started again on the store it left\<close>
  created: "reachable flt fstr (init_db missing_file)"
| ticked: "reachable flt fstr d \<Longrightarrow> tick flt fstr r d = (e, d') \<Longrightarrow> reachable flt fstr d'"
| restarted: "reachable flt fstr d \<Longrightarrow> reachable flt fstr (init_db d)"

definition all_logs :: "db \<Rightarrow> system_row list" where
  \<comment> \<open>the rows of \<open>system_log\<close>, none while the table does not exist\<close>
  "all_logs d = (case system_log d of None \<Rightarrow> [] | Some t \<Rightarrow> log_rows t)"

definition all_alerts :: "db \<Rightarrow> alert_row list" where
  "all_alerts d = (case alerts_log d of None \<Rightarrow> [] | Some a \<Rightarrow> alert_rows a)"

definition alerts_have_sample :: "db \<Rightarrow> bool" where
  \<comment> \<open>every row of \<open>alerts_log\<close> has the timestamp of some row of \<open>system_log\<close>\<close>
  "alerts_have_sample d =
     list_all (\<lambda>a. alert_timestamp a \<in> set (map log_timestamp (all_logs d))) (all_alerts d)"

fun append_samples :: "sample list \<Rightarrow> db \<Rightarrow> error + db" where
  \<comment> \<open>one call of \<open>insert_log\<close> after the other, up to the first that raises\<close>
  "append_samples [] d = Inr d"
| "append_samples (data # rest) d =
     (case insert_log data d of Inl e \<Rightarrow> Inl e | Inr d' \<Rightarrow> append_samples rest d')"

definition sample_of :: "system_row \<Rightarrow> sample" where
  \<comment> \<open>a stored row without its id\<close>
  "sample_of row =
     (log_timestamp row, log_cpu row, log_memory row, log_disk row, log_ping_status row,
      log_ping_ms row)"

definition alert_fields :: "alert_row \<Rightarrow> string \<times> string \<times> real \<times> real \<times> string" where
  \<comment> \<open>a stored alert without its id\<close>
  "alert_fields row =
     (alert_timestamp row, alert_type row, alert_value row, alert_threshold row, alert_message row)"

section \<open>The dashboard's queries (app.py)\<close>

text \<open>
  A DataFrame is the list of its rows. The cache of \<open>st.cache_data\<close> is not modelled:
  each query reads the store it is given.
\<close>

definition get_system_logs :: "string option \<Rightarrow> db \<Rightarrow> error + system_row list" where
  "get_system_logs ping_filter d =
     (case system_log d of
        None \<Rightarrow> Inl (no_such_table ''system_log'')
      | Some t \<Rightarrow>
          (case ping_filter of
             None \<Rightarrow> Inr (order_by_id_desc log_id (log_rows t))
           | Some f \<Rightarrow>
               if f \<noteq> [] \<and> f \<noteq> ''All''
               then Inr (order_by_id_desc log_id (filter (\<lambda>row. log_ping_status row = f) (log_rows t)))
               else Inr (order_by_id_desc log_id (log_rows t))))"

definition get_alerts_log :: "db \<Rightarrow> error + alert_row list" where
  "get_alerts_log d =
     (case alerts_log d of
        None \<Rightarrow> Inl (no_such_table ''alerts_log'')
      | Some a \<Rightarrow> Inr (take 20 (order_by_id_desc alert_id (alert_rows a))))"

record statistics =
  log_count :: nat
  alert_count :: nat
  latest_cpu :: real
  latest_memory :: real
  latest_disk :: real
  latest_ping_status :: string
  latest_ping_ms :: real

definition get_statistics :: "db \<Rightarrow> error + statistics" where
  "get_statistics d =
     (case system_log d of
        None \<Rightarrow> Inl (no_such_table ''system_log'')
      | Some t \<Rightarrow>
          (case alerts_log d of
             None \<Rightarrow> Inl (no_such_table ''alerts_log'')
           | Some a \<Rightarrow>
               (case take 1 (order_by_id_desc log_id (log_rows t)) of
                  [] \<Rightarrow>
                    Inr \<lparr>log_count = length (log_rows t), alert_count = length (alert_rows a),
                         latest_cpu = 0, latest_memory = 0, latest_disk = 0,
                         latest_ping_status = ''N/A'', latest_ping_ms = 0\<rparr>
                | latest # _ \<Rightarrow>
                    Inr \<lparr>log_count = length (log_rows t), alert_count = length (alert_rows a),
                         latest_cpu = log_cpu latest, latest_memory = log_memory latest,
                         latest_disk = log_disk latest,
                         latest_ping_status = log_ping_status latest,
                         latest_ping_ms = log_ping_ms latest\<rparr>)))"

section \<open>The dashboard page (app.py)\<close>

text \<open>
  What \<open>main\<close> puts on the page, call by call. The widgets of the sidebar are its
  inputs: the chosen ping filter, the number of records and whether the refresh
  button was pressed. \<open>f"{x:.1f}"\<close> is the parameter \<open>fixed1\<close>. The part of the page
  below the header of the charts is pandas and Streamlit code working on the full
  table in ascending order of id; it is the parameter \<open>charts\<close>, which gives what it
  shows and the exception that ended it, if one did.
\<close>

datatype ui =
    Title string
  | Markdown string
  | SidebarHeader string
  | Header string
  | Metric string string "string option"  \<comment> \<open>label, value, delta\<close>
  | Expander string "ui list"
  | Success string
  | Warning string
  | Info string
  | Error string
  | Dataframe "(int \<times> string \<times> string \<times> string \<times> string \<times> string \<times> string) list"
  | CacheClear
  | Rerun

definition error_text :: "error \<Rightarrow> string" where
  \<comment> \<open>\<open>str(e)\<close>\<close>
  "error_text e = (case e of OperationalError m \<Rightarrow> m | OtherError m \<Rightarrow> m)"

definition percent_metric :: "(real \<Rightarrow> string) \<Rightarrow> string \<Rightarrow> real \<Rightarrow> real \<Rightarrow> ui" where
  \<comment> \<open>the metric of a percentage, with the excess over the limit as its delta\<close>
  "percent_metric fixed1 label v limit =
     Metric label (fixed1 v @ ''%'') (if v > limit then Some (fixed1 (v - limit) @ ''%'') else None)"

definition ping_display :: "(real \<Rightarrow> string) \<Rightarrow> real \<Rightarrow> string" where
  "ping_display fixed1 ms = (if ms > 0 then fixed1 ms @ ''ms'' else ''N/A'')"

definition alert_color :: "string \<Rightarrow> string" where
  "alert_color atype =
     (if atype = ''CPU'' then utf8 0x1F534
      else if atype = ''MEMORY'' then utf8 0x1F7E0
      else if atype = ''DISK'' then utf8 0x1F7E1
      else utf8 0x26AA)"

definition alert_warning :: "alert_row \<Rightarrow> ui" where
  "alert_warning alert =
     Warning (alert_color (alert_type alert) @ '' **'' @ alert_timestamp alert @ ''** - '' @
              alert_message alert)"

definition display_row ::
  "(real \<Rightarrow> string) \<Rightarrow> system_row \<Rightarrow> int \<times> string \<times> string \<times> string \<times> string \<times> string \<times> string"
where
  "display_row fixed1 row =
     (log_id row, log_timestamp row, fixed1 (log_cpu row) @ ''%'', fixed1 (log_memory row) @ ''%'',
      fixed1 (log_disk row) @ ''%'', log_ping_status row, ping_display fixed1 (log_ping_ms row))"

definition status_section :: "(real \<Rightarrow> string) \<Rightarrow> statistics \<Rightarrow> ui list" where
  "status_section fixed1 stats =
     [Header (utf8 0x1F4C8 @ '' Current System Status''),
      percent_metric fixed1 ''CPU Usage'' (latest_cpu stats) 80,
      percent_metric fixed1 ''Memory Usage'' (latest_memory stats) 85,
      percent_metric fixed1 ''Disk Usage'' (latest_disk stats) 90,
      Metric ''Ping Status''
        ((if latest_ping_status stats = ''UP'' then utf8 0x1F7E2 else utf8 0x1F534) @ '' '' @
         latest_ping_status stats) None,
      Metric ''Ping Time'' (ping_display fixed1 (latest_ping_ms stats)) None,
      Markdown ''---'',
      Header (utf8 0x1F6A8 @ '' Recent Alerts'')]"

definition alerts_section :: "statistics \<Rightarrow> alert_row list \<Rightarrow> ui list" where
  "alerts_section stats alerts_df =
     (if alerts_df \<noteq> [] then
        [Metric ''Total Alerts'' (str_nat (alert_count stats)) None,
         Expander (''View Latest '' @ str_nat (length alerts_df) @ '' Alerts'')
           (map alert_warning alerts_df)]
      else [Success (utf8 0x2705 @ '' No alerts triggered! All systems operating normally.'')]) @
     [Markdown ''---'', Header (utf8 0x1F4CB @ '' System Logs'')]"

definition logs_section :: "(real \<Rightarrow> string) \<Rightarrow> nat \<Rightarrow> statistics \<Rightarrow> system_row list \<Rightarrow> ui list" where
  "logs_section fixed1 num_records stats df =
     [Info (''Showing '' @ str_nat (min num_records (length df)) @ '' of '' @
            str_nat (log_count stats) @ '' total records''),
      Dataframe (map (display_row fixed1) (take num_records df)),
      Markdown ''---'',
      Header (utf8 0x1F4CA @ '' Performance Charts'')]"

definition page_body ::
  "(real \<Rightarrow> string) \<Rightarrow> (system_row list \<Rightarrow> ui list \<times> error option) \<Rightarrow> string \<Rightarrow> nat \<Rightarrow> db \<Rightarrow>
   ui list \<times> error option"
where
  \<comment> \<open>the body of the \<open>try\<close>: what it has shown, and the exception that ended it, if any\<close>
  "page_body fixed1 charts ping_filter num_records d =
     (case get_statistics d of
        Inl e \<Rightarrow> ([], Some e)
      | Inr stats \<Rightarrow>
          (case get_alerts_log d of
             Inl e \<Rightarrow> (status_section fixed1 stats, Some e)
           | Inr alerts_df \<Rightarrow>
               (let shown = status_section fixed1 stats @ alerts_section stats alerts_df
                in case get_system_logs (if ping_filter \<noteq> ''All'' then Some ping_filter else None) d of
                     Inl e \<Rightarrow> (shown, Some e)
                   | Inr df \<Rightarrow>
                       if df \<noteq> [] then
                         (case get_system_logs None d of
                            Inl e \<Rightarrow> (shown @ logs_section fixed1 num_records stats df, Some e)
                          | Inr chart_df \<Rightarrow>
                              (case charts (order_by_id log_id chart_df) of
                                 (drawn, err) \<Rightarrow>
                                   (shown @ logs_section fixed1 num_records stats df @ drawn, err)))
                       else (shown @ [Warning ''No data available in the database.''], None))))"

definition run_logger_first :: string where
  "run_logger_first =
     ''Make sure '' @ [CHR 0x27] @ ''log.db'' @ [CHR 0x27] @
     '' exists in the same directory. Run your logger script first.''"

definition page_top :: "ui list" where
  \<comment> \<open>the title and the sidebar, shown before the store is read\<close>
  "page_top =
     [Title (utf8 0x1F4CA @ '' System Monitor Dashboard''), Markdown ''---'',
      SidebarHeader (utf8 0x2699 @ utf8 0xFE0F @ '' Filters'')]"

definition main ::
  "(real \<Rightarrow> string) \<Rightarrow> (system_row list \<Rightarrow> ui list \<times> error option) \<Rightarrow> string \<Rightarrow> nat \<Rightarrow> bool \<Rightarrow> db \<Rightarrow>
   ui list"
where
  \<comment> \<open>\<open>except Exception as e\<close> takes every exception of the body; \<open>st.rerun()\<close> ends the
      run before the body starts\<close>
  "main fixed1 charts ping_filter num_records refresh d =
     page_top @
     (if refresh then [CacheClear, Rerun]
      else (case page_body fixed1 charts ping_filter num_records d of
              (shown, None) \<Rightarrow> shown
            | (shown, Some e) \<Rightarrow>
                shown @ [Error (''Error loading data: '' @ error_text e), Info run_logger_first]))"

section \<open>Example stores\<close>

definition three_samples :: db where
  \<comment> \<open>the store after the samples (90, 50, 50, UP, 10), (50, 95, 50, UP, 12) and
      (50, 50, 95, DOWN, -1), without their alerts\<close>
  "three_samples =
     \<lparr>system_log = Some \<lparr>log_rows =
        [\<lparr>log_id = 1, log_timestamp = ''2025-11-05 10:00:00'', log_cpu = 90, log_memory = 50,
          log_disk = 50, log_ping_status = ''UP'', log_ping_ms = 10\<rparr>,
         \<lparr>log_id = 2, log_timestamp = ''2025-11-05 10:00:10'', log_cpu = 50, log_memory = 95,
          log_disk = 50, log_ping_status = ''UP'', log_ping_ms = 12\<rparr>,
         \<lparr>log_id = 3, log_timestamp = ''2025-11-05 10:00:20'', log_cpu = 50, log_memory = 50,
          log_disk = 95, log_ping_status = ''DOWN'', log_ping_ms = -1\<rparr>], log_seq = 3\<rparr>,
      alerts_log = Some \<lparr>alert_rows = [], alert_seq = 0\<rparr>\<rparr>"

definition orphan_alert :: db where
  \<comment> \<open>a database file whose \<open>system_log\<close> is empty while \<open>alerts_log\<close> holds a row\<close>
  "orphan_alert =
     \<lparr>system_log = Some \<lparr>log_rows = [], log_seq = 0\<rparr>,
      alerts_log = Some \<lparr>alert_rows =
        [\<lparr>alert_id = 1, alert_timestamp = ''2025-11-05 10:00:00'', alert_type = ''CPU'',
          alert_value = 90, alert_threshold = 80, alert_message = ''High CPU usage!''\<rparr>],
        alert_seq = 1\<rparr>\<rparr>"

definition samples_only :: db where
  \<comment> \<open>a database file with an empty \<open>system_log\<close> and no \<open>alerts_log\<close> table\<close>
  "samples_only = \<lparr>system_log = Some \<lparr>log_rows = [], log_seq = 0\<rparr>, alerts_log = None\<rparr>"

section \<open>Properties of the store\<close>

lemma next_rowid_greater: "i \<in> set ids \<Longrightarrow> i < next_rowid ids seq"
proof -
  assume a: "i \<in> set ids"
  then have "i \<le> Max (set ids)" by simp
  moreover from a have "ids \<noteq> []" by auto
  ultimately show ?thesis by (simp add: next_rowid_def)
qed

lemma insert_alerts_appends:
  assumes "alerts_log d = Some t"
  shows "\<exists>d' t' news. insert_alerts ts as d = Inr d' \<and> alerts_log d' = Some t' \<and>
           system_log d' = system_log d \<and> alert_rows t' = alert_rows t @ news \<and>
           map alert_fields news = map (\<lambda>(ty, v, th, m). (ts, ty, v, th, m)) as \<and>
           sorted_wrt (<) (map alert_id news) \<and>
           (\<forall>old \<in> set (alert_rows t). \<forall>new \<in> set news. alert_id old < alert_id new)"
  using assms
proof (induction as arbitrary: d t)
  case Nil
  then show ?case by simp
next
  case (Cons a as)
  obtain ty v th m where a: "a = (ty, v, th, m)" by (cases a) auto
  define r where "r = \<lparr>alert_id = next_rowid (map alert_id (alert_rows t)) (alert_seq t),
       alert_timestamp = ts, alert_type = ty, alert_value = v, alert_threshold = th, alert_message = m\<rparr>"
  define d1 where "d1 = d\<lparr>alerts_log := Some \<lparr>alert_rows = alert_rows t @ [r], alert_seq = alert_id r\<rparr>\<rparr>"
  have step: "insert_alert ts ty v th m d = Inr d1"
    using Cons.prems by (simp add: insert_alert_def d1_def r_def Let_def)
  have above: "\<forall>old \<in> set (alert_rows t). alert_id old < alert_id r"
    by (simp add: r_def next_rowid_greater)
  have "alerts_log d1 = Some \<lparr>alert_rows = alert_rows t @ [r], alert_seq = alert_id r\<rparr>"
    by (simp add: d1_def)
  from Cons.IH [OF this] obtain d' t' news where
    rest: "insert_alerts ts as d1 = Inr d'" "alerts_log d' = Some t'"
      "system_log d' = system_log d1" "alert_rows t' = (alert_rows t @ [r]) @ news"
      "map alert_fields news = map (\<lambda>(ty, v, th, m). (ts, ty, v, th, m)) as"
      "sorted_wrt (<) (map alert_id news)"
      "\<forall>old \<in> set (alert_rows t @ [r]). \<forall>new \<in> set news. alert_id old < alert_id new"
    by auto
  have "insert_alerts ts (a # as) d = Inr d'"
    using step rest(1) by (simp add: a)
  moreover have "system_log d' = system_log d"
    using rest(3) by (simp add: d1_def)
  moreover have "alert_rows t' = alert_rows t @ (r # news)"
    using rest(4) by simp
  moreover have "map alert_fields (r # news) = map (\<lambda>(ty, v, th, m). (ts, ty, v, th, m)) (a # as)"
    using rest(5) by (simp add: a alert_fields_def r_def)
  moreover have "sorted_wrt (<) (map alert_id (r # news))"
    using rest(6) rest(7) by simp
  moreover have "\<forall>old \<in> set (alert_rows t). \<forall>new \<in> set (r # news). alert_id old < alert_id new"
    using rest(7) above by simp
  ultimately show ?case
    using rest(2) by blast
qed

lemma check_alerts_appends:
  assumes "alerts_log d = Some t"
  shows "\<exists>d' t' news. check_alerts fstr data d = Inr (alerts_triggered fstr data \<noteq> [], d') \<and>
           alerts_log d' = Some t' \<and> system_log d' = system_log d \<and>
           alert_rows t' = alert_rows t @ news \<and>
           map alert_fields news =
             map (\<lambda>(ty, v, th, m). (fst data, ty, v, th, m)) (alerts_triggered fstr data) \<and>
           sorted_wrt (<) (map alert_id news) \<and>
           (\<forall>old \<in> set (alert_rows t). \<forall>new \<in> set news. alert_id old < alert_id new)"
proof -
  from insert_alerts_appends [OF assms, of "fst data" "alerts_triggered fstr data"]
  obtain d' t' news where
    h: "insert_alerts (fst data) (alerts_triggered fstr data) d = Inr d'" "alerts_log d' = Some t'"
      "system_log d' = system_log d" "alert_rows t' = alert_rows t @ news"
      "map alert_fields news =
         map (\<lambda>(ty, v, th, m). (fst data, ty, v, th, m)) (alerts_triggered fstr data)"
      "sorted_wrt (<) (map alert_id news)"
      "\<forall>old \<in> set (alert_rows t). \<forall>new \<in> set news. alert_id old < alert_id new"
    by blast
  have "check_alerts fstr data d = Inr (alerts_triggered fstr data \<noteq> [], d')"
    using h(1) by (simp add: check_alerts_def)
  with h show ?thesis by blast
qed

section \<open>The alert evaluator\<close>

text \<open>
  C2. A sample whose cpu, memory and disk are each at most their thresholds (80, 85
  and 90) gives no alert: the list of triggered alerts is empty, \<open>check_alerts\<close> returns
  \<open>False\<close> and leaves the store as it was. The comparison is strict, so the values
  80, 85 and 90 themselves give none.
\<close>

theorem no_alert_within_thresholds:
  assumes "cpu \<le> 80" and "memory \<le> 85" and "disk \<le> 90"
  shows "alerts_triggered fstr (ts, cpu, memory, disk, st, ms) = [] \<and>
         check_alerts fstr (ts, cpu, memory, disk, st, ms) d = Inr (False, d)"
  using assms
  by (simp add: check_alerts_def alerts_triggered_def CPU_THRESHOLD_def MEMORY_THRESHOLD_def
      DISK_THRESHOLD_def)

theorem no_alert_within_thresholds_witness:
  "(80::real) \<le> 80 \<and> (85::real) \<le> 85 \<and> (90::real) \<le> 90 \<and>
   alerts_triggered (\<lambda>v. ''80.0'') (''2025-11-05 10:00:00'', 80, 85, 90, ''UP'', 12) = [] \<and>
   check_alerts (\<lambda>v. ''80.0'') (''2025-11-05 10:00:00'', 80, 85, 90, ''UP'', 12) (init_db missing_file)
     = Inr (False, init_db missing_file)"
  using no_alert_within_thresholds [of 80 85 90 "\<lambda>v. ''80.0''" "''2025-11-05 10:00:00''" "''UP''" 12
      "init_db missing_file"]
  by simp

lemma single_alert_row:
  assumes "alerts_log d = Some t"
    and "alerts_triggered fstr data = [(ty, v, th, m)]"
  shows "\<exists>d' t' r. check_alerts fstr data d = Inr (True, d') \<and> alerts_log d' = Some t' \<and>
           alert_rows t' = alert_rows t @ [r] \<and> alert_timestamp r = fst data \<and>
           alert_type r = ty \<and> alert_value r = v \<and> alert_threshold r = th"
proof -
  from check_alerts_appends [OF assms(1), of fstr data] obtain d' t' news where
    h: "check_alerts fstr data d = Inr (alerts_triggered fstr data \<noteq> [], d')"
      "alerts_log d' = Some t'" "alert_rows t' = alert_rows t @ news"
      "map alert_fields news =
         map (\<lambda>(ty, v, th, m). (fst data, ty, v, th, m)) (alerts_triggered fstr data)"
    by blast
  from h(4) assms(2) obtain r where r: "news = [r]" "alert_fields r = (fst data, ty, v, th, m)"
    by auto
  from r(2) have "alert_timestamp r = fst data \<and> alert_type r = ty \<and> alert_value r = v \<and>
      alert_threshold r = th"
    by (simp add: alert_fields_def)
  with h(1,2,3) r(1) assms(2) show ?thesis
    by auto
qed

text \<open>
  C3. When exactly one of cpu, memory and disk is above its threshold, the evaluator
  triggers exactly one alert, and \<open>check_alerts\<close> adds exactly one row to \<open>alerts_log\<close>:
  its type names that metric, its value is the metric's value in the sample, its
  threshold is 80, 85 or 90 respectively, and its timestamp is the sample's.
\<close>

theorem one_alert_for_one_metric:
  assumes "alerts_log d = Some t"
  shows
    "(cpu > 80 \<and> memory \<le> 85 \<and> disk \<le> 90 \<longrightarrow>
        (\<exists>m. alerts_triggered fstr (ts, cpu, memory, disk, st, ms) = [(''CPU'', cpu, 80, m)]) \<and>
        (\<exists>d' t' r. check_alerts fstr (ts, cpu, memory, disk, st, ms) d = Inr (True, d') \<and>
           alerts_log d' = Some t' \<and> alert_rows t' = alert_rows t @ [r] \<and>
           alert_timestamp r = ts \<and> alert_type r = ''CPU'' \<and> alert_value r = cpu \<and>
           alert_threshold r = 80)) \<and>
     (cpu \<le> 80 \<and> memory > 85 \<and> disk \<le> 90 \<longrightarrow>
        (\<exists>m. alerts_triggered fstr (ts, cpu, memory, disk, st, ms) = [(''MEMORY'', memory, 85, m)]) \<and>
        (\<exists>d' t' r. check_alerts fstr (ts, cpu, memory, disk, st, ms) d = Inr (True, d') \<and>
           alerts_log d' = Some t' \<and> alert_rows t' = alert_rows t @ [r] \<and>
           alert_timestamp r = ts \<and> alert_type r = ''MEMORY'' \<and> alert_value r = memory \<and>
           alert_threshold r = 85)) \<and>
     (cpu \<le> 80 \<and> memory \<le> 85 \<and> disk > 90 \<longrightarrow>
        (\<exists>m. alerts_triggered fstr (ts, cpu, memory, disk, st, ms) = [(''DISK'', disk, 90, m)]) \<and>
        (\<exists>d' t' r. check_alerts fstr (ts, cpu, memory, disk, st, ms) d = Inr (True, d') \<and>
           alerts_log d' = Some t' \<and> alert_rows t' = alert_rows t @ [r] \<and>
           alert_timestamp r = ts \<and> alert_type r = ''DISK'' \<and> alert_value r = disk \<and>
           alert_threshold r = 90))"
proof (intro conjI impI)
  let ?data = "(ts, cpu, memory, disk, st, ms)"
  {
    assume "cpu > 80 \<and> memory \<le> 85 \<and> disk \<le> 90"
    then have one: "alerts_triggered fstr ?data =
        [(''CPU'', cpu, 80, alert_text fstr ''High CPU usage!'' cpu)]"
      by (simp add: alerts_triggered_def CPU_THRESHOLD_def MEMORY_THRESHOLD_def DISK_THRESHOLD_def)
    then show "\<exists>m. alerts_triggered fstr ?data = [(''CPU'', cpu, 80, m)]"
      by blast
    from single_alert_row [OF assms one]
    show "\<exists>d' t' r. check_alerts fstr ?data d = Inr (True, d') \<and>
           alerts_log d' = Some t' \<and> alert_rows t' = alert_rows t @ [r] \<and>
           alert_timestamp r = ts \<and> alert_type r = ''CPU'' \<and> alert_value r = cpu \<and>
           alert_threshold r = 80"
      by simp
  }
  {
    assume "cpu \<le> 80 \<and> memory > 85 \<and> disk \<le> 90"
    then have one: "alerts_triggered fstr ?data =
        [(''MEMORY'', memory, 85, alert_text fstr ''High Memory usage!'' memory)]"
      by (simp add: alerts_triggered_def CPU_THRESHOLD_def MEMORY_THRESHOLD_def DISK_THRESHOLD_def)
    then show "\<exists>m. alerts_triggered fstr ?data = [(''MEMORY'', memory, 85, m)]"
      by blast
    from single_alert_row [OF assms one]
    show "\<exists>d' t' r. check_alerts fstr ?data d = Inr (True, d') \<and>
           alerts_log d' = Some t' \<and> alert_rows t' = alert_rows t @ [r] \<and>
           alert_timestamp r = ts \<and> alert_type r = ''MEMORY'' \<and> alert_value r = memory \<and>
           alert_threshold r = 85"
      by simp
  }
  {
    assume "cpu \<le> 80 \<and> memory \<le> 85 \<and> disk > 90"
    then have one: "alerts_triggered fstr ?data =
        [(''DISK'', disk, 90, alert_text fstr ''Low Disk Space!'' disk)]"
      by (simp add: alerts_triggered_def CPU_THRESHOLD_def MEMORY_THRESHOLD_def DISK_THRESHOLD_def)
    then show "\<exists>m. alerts_triggered fstr ?data = [(''DISK'', disk, 90, m)]"
      by blast
    from single_alert_row [OF assms one]
    show "\<exists>d' t' r. check_alerts fstr ?data d = Inr (True, d') \<and>
           alerts_log d' = Some t' \<and> alert_rows t' = alert_rows t @ [r] \<and>
           alert_timestamp r = ts \<and> alert_type r = ''DISK'' \<and> alert_value r = disk \<and>
           alert_threshold r = 90"
      by simp
  }
qed

theorem one_alert_for_one_metric_witness:
  "alerts_log (init_db missing_file) = Some \<lparr>alert_rows = [], alert_seq = 0\<rparr> \<and>
   (\<exists>m. alerts_triggered (\<lambda>v. ''90.0'') (''2025-11-05 10:00:00'', 90, 50, 50, ''UP'', 10)
          = [(''CPU'', 90, 80, m)]) \<and>
   (\<exists>d' t' r. check_alerts (\<lambda>v. ''90.0'') (''2025-11-05 10:00:00'', 90, 50, 50, ''UP'', 10)
                 (init_db missing_file) = Inr (True, d') \<and>
      alerts_log d' = Some t' \<and> alert_rows t' = [r] \<and>
      alert_timestamp r = ''2025-11-05 10:00:00'' \<and> alert_type r = ''CPU'' \<and>
      alert_value r = 90 \<and> alert_threshold r = 80) \<and>
   (\<exists>m. alerts_triggered (\<lambda>v. ''95.0'') (''2025-11-05 10:00:10'', 50, 95, 50, ''UP'', 12)
          = [(''MEMORY'', 95, 85, m)]) \<and>
   (\<exists>d' t' r. check_alerts (\<lambda>v. ''95.0'') (''2025-11-05 10:00:10'', 50, 95, 50, ''UP'', 12)
                 (init_db missing_file) = Inr (True, d') \<and>
      alerts_log d' = Some t' \<and> alert_rows t' = [r] \<and>
      alert_timestamp r = ''2025-11-05 10:00:10'' \<and> alert_type r = ''MEMORY'' \<and>
      alert_value r = 95 \<and> alert_threshold r = 85) \<and>
   (\<exists>m. alerts_triggered (\<lambda>v. ''95.0'') (''2025-11-05 10:00:20'', 50, 50, 95, ''DOWN'', -1)
          = [(''DISK'', 95, 90, m)]) \<and>
   (\<exists>d' t' r. check_alerts (\<lambda>v. ''95.0'') (''2025-11-05 10:00:20'', 50, 50, 95, ''DOWN'', -1)
                 (init_db missing_file) = Inr (True, d') \<and>
      alerts_log d' = Some t' \<and> alert_rows t' = [r] \<and>
      alert_timestamp r = ''2025-11-05 10:00:20'' \<and> alert_type r = ''DISK'' \<and>
      alert_value r = 95 \<and> alert_threshold r = 90)"
proof -
  have h: "alerts_log (init_db missing_file) = Some \<lparr>alert_rows = [], alert_seq = 0\<rparr>"
    by (simp add: init_db_def missing_file_def)
  note a = one_alert_for_one_metric [OF h, of 90 50 50 "\<lambda>v. ''90.0''" "''2025-11-05 10:00:00''"
      "''UP''" 10]
  note b = one_alert_for_one_metric [OF h, of 50 95 50 "\<lambda>v. ''95.0''" "''2025-11-05 10:00:10''"
      "''UP''" 12]
  note c = one_alert_for_one_metric [OF h, of 50 50 95 "\<lambda>v. ''95.0''" "''2025-11-05 10:00:20''"
      "''DOWN''" "-1"]
  from a b c h show ?thesis
    by simp
qed

lemma alert_types_subseq:
  "subseq (map fst (alerts_triggered fstr data)) [''CPU'', ''MEMORY'', ''DISK'']"
  by (cases data) (simp add: alerts_triggered_def)

text \<open>
  C4. Whatever the values, the alerts of one sample come in the order CPU, MEMORY,
  DISK: the types of the triggered alerts are the sequence CPU, MEMORY, DISK with
  the metrics left out that do not exceed their threshold, and \<open>check_alerts\<close> adds
  the rows to \<open>alerts_log\<close> in that order, with ids that grow along it.
\<close>

theorem alerts_in_fixed_order:
  assumes "alerts_log d = Some t"
  shows
    "subseq (map fst (alerts_triggered fstr (ts, cpu, memory, disk, st, ms)))
       [''CPU'', ''MEMORY'', ''DISK''] \<and>
     (''CPU'' \<in> set (map fst (alerts_triggered fstr (ts, cpu, memory, disk, st, ms))) \<longleftrightarrow> cpu > 80) \<and>
     (''MEMORY'' \<in> set (map fst (alerts_triggered fstr (ts, cpu, memory, disk, st, ms)))
        \<longleftrightarrow> memory > 85) \<and>
     (''DISK'' \<in> set (map fst (alerts_triggered fstr (ts, cpu, memory, disk, st, ms))) \<longleftrightarrow> disk > 90) \<and>
     (\<exists>fired d' t' news.
        check_alerts fstr (ts, cpu, memory, disk, st, ms) d = Inr (fired, d') \<and>
        alerts_log d' = Some t' \<and> alert_rows t' = alert_rows t @ news \<and>
        map alert_type news = map fst (alerts_triggered fstr (ts, cpu, memory, disk, st, ms)) \<and>
        sorted_wrt (<) (map alert_id news))"
proof -
  let ?data = "(ts, cpu, memory, disk, st, ms)"
  have order: "subseq (map fst (alerts_triggered fstr ?data)) [''CPU'', ''MEMORY'', ''DISK'']"
    by (rule alert_types_subseq)
  have c: "''CPU'' \<in> set (map fst (alerts_triggered fstr ?data)) \<longleftrightarrow> cpu > 80"
    by (auto simp: alerts_triggered_def CPU_THRESHOLD_def)
  have m: "''MEMORY'' \<in> set (map fst (alerts_triggered fstr ?data)) \<longleftrightarrow> memory > 85"
    by (auto simp: alerts_triggered_def MEMORY_THRESHOLD_def)
  have k: "''DISK'' \<in> set (map fst (alerts_triggered fstr ?data)) \<longleftrightarrow> disk > 90"
    by (auto simp: alerts_triggered_def DISK_THRESHOLD_def)
  from check_alerts_appends [OF assms, of fstr ?data] obtain d' t' news where
    h: "check_alerts fstr ?data d = Inr (alerts_triggered fstr ?data \<noteq> [], d')"
      "alerts_log d' = Some t'" "alert_rows t' = alert_rows t @ news"
      "map alert_fields news =
         map (\<lambda>(ty, v, th, m). (fst ?data, ty, v, th, m)) (alerts_triggered fstr ?data)"
      "sorted_wrt (<) (map alert_id news)"
    by blast
  have "map (fst \<circ> snd) (map alert_fields news) =
      map (fst \<circ> snd) (map (\<lambda>(ty, v, th, m). (fst ?data, ty, v, th, m)) (alerts_triggered fstr ?data))"
    using h(4) by simp
  then have types: "map alert_type news = map fst (alerts_triggered fstr ?data)"
    by (simp add: alert_fields_def comp_def case_prod_unfold)
  from h(1,2,3,5) types have
    "\<exists>fired d' t' news. check_alerts fstr ?data d = Inr (fired, d') \<and>
        alerts_log d' = Some t' \<and> alert_rows t' = alert_rows t @ news \<and>
        map alert_type news = map fst (alerts_triggered fstr ?data) \<and>
        sorted_wrt (<) (map alert_id news)"
    by blast
  with order c m k show ?thesis
    by blast
qed

theorem alerts_in_fixed_order_witness:
  "alerts_log (init_db missing_file) = Some \<lparr>alert_rows = [], alert_seq = 0\<rparr> \<and>
   map fst (alerts_triggered (\<lambda>v. ''?'') (''2025-11-05 10:00:00'', 81, 99, 95, ''UP'', 10))
     = [''CPU'', ''MEMORY'', ''DISK''] \<and>
   (\<exists>fired d' t' news.
      check_alerts (\<lambda>v. ''?'') (''2025-11-05 10:00:00'', 81, 99, 95, ''UP'', 10)
        (init_db missing_file) = Inr (fired, d') \<and>
      alerts_log d' = Some t' \<and> alert_rows t' = news \<and>
      map alert_type news = [''CPU'', ''MEMORY'', ''DISK''] \<and>
      sorted_wrt (<) (map alert_id news))"
proof -
  have h: "alerts_log (init_db missing_file) = Some \<lparr>alert_rows = [], alert_seq = 0\<rparr>"
    by (simp add: init_db_def missing_file_def)
  have v: "map fst (alerts_triggered (\<lambda>v. ''?'') (''2025-11-05 10:00:00'', 81, 99, 95, ''UP'', 10))
     = [''CPU'', ''MEMORY'', ''DISK'']"
    by (simp add: alerts_triggered_def CPU_THRESHOLD_def MEMORY_THRESHOLD_def DISK_THRESHOLD_def)
  from alerts_in_fixed_order [OF h, of "\<lambda>v. ''?''" "''2025-11-05 10:00:00''" 81 99 95 "''UP''" 10]
    h v show ?thesis
    by simp
qed

section \<open>Appending and reading samples\<close>

lemma newest_first:
  assumes "\<forall>x \<in> set rows. key x < key r"
  shows "order_by_id_desc key (rows @ [r]) = r # order_by_id_desc key rows"
  using assms
proof (induction rows)
  case Nil
  then show ?case by (simp add: order_by_id_desc_def)
next
  case (Cons x xs)
  then have "order_by_id_desc key (xs @ [r]) = r # order_by_id_desc key xs"
    by simp
  moreover from Cons.prems have "\<not> - key x \<le> - key r"
    by simp
  ultimately show ?case
    by (simp add: order_by_id_desc_def)
qed

lemma order_by_id_desc_sorted: "sorted (map (\<lambda>r. - key r) (order_by_id_desc key rows))"
  by (simp add: order_by_id_desc_def)

lemma insert_log_row:
  assumes "system_log d = Some t"
  shows "\<exists>r. insert_log data d =
             Inr (d\<lparr>system_log := Some \<lparr>log_rows = log_rows t @ [r], log_seq = log_id r\<rparr>\<rparr>) \<and>
           sample_of r = data \<and> (\<forall>x \<in> set (log_rows t). log_id x < log_id r)"
proof -
  obtain ts cpu memory disk st ms where data: "data = (ts, cpu, memory, disk, st, ms)"
    by (cases data) auto
  define r where "r = \<lparr>log_id = next_rowid (map log_id (log_rows t)) (log_seq t),
      log_timestamp = ts, log_cpu = cpu, log_memory = memory, log_disk = disk,
      log_ping_status = st, log_ping_ms = ms\<rparr>"
  have "insert_log data d =
      Inr (d\<lparr>system_log := Some \<lparr>log_rows = log_rows t @ [r], log_seq = log_id r\<rparr>\<rparr>)"
    using assms by (simp add: insert_log_def data r_def Let_def)
  moreover have "sample_of r = data"
    by (simp add: sample_of_def r_def data)
  moreover have "\<forall>x \<in> set (log_rows t). log_id x < log_id r"
    by (simp add: r_def next_rowid_greater)
  ultimately show ?thesis
    by blast
qed

text \<open>
  C6. Appending a sample to a store that has the \<open>system_log\<close> table and then reading
  the table newest first (\<open>ORDER BY id DESC\<close>) gives the appended sample as the first
  row: its timestamp, cpu, memory, disk, ping_status and ping_ms are those of the
  sample, and its id is above the id of every other row. So the dashboard's
  unfiltered query starts with it and \<open>show_last_entries\<close> with limit 1 prints it.
\<close>

theorem append_then_read_newest:
  assumes "system_log d = Some t"
  shows "\<exists>d' r older. insert_log data d = Inr d' \<and>
           get_system_logs None d' = Inr (r # older) \<and>
           show_last_entries 1 d' = Inr [r] \<and>
           sample_of r = data \<and> (\<forall>x \<in> set older. log_id x < log_id r)"
proof -
  from insert_log_row [OF assms, of data] obtain r where
    r: "insert_log data d =
          Inr (d\<lparr>system_log := Some \<lparr>log_rows = log_rows t @ [r], log_seq = log_id r\<rparr>\<rparr>)"
      "sample_of r = data" "\<forall>x \<in> set (log_rows t). log_id x < log_id r"
    by blast
  let ?d' = "d\<lparr>system_log := Some \<lparr>log_rows = log_rows t @ [r], log_seq = log_id r\<rparr>\<rparr>"
  let ?older = "order_by_id_desc log_id (log_rows t)"
  have first: "order_by_id_desc log_id (log_rows t @ [r]) = r # ?older"
    using r(3) by (rule newest_first)
  have "get_system_logs None ?d' = Inr (r # ?older)"
    by (simp add: get_system_logs_def first)
  moreover have "show_last_entries 1 ?d' = Inr [r]"
    by (simp add: show_last_entries_def first)
  moreover have "\<forall>x \<in> set ?older. log_id x < log_id r"
    using r(3) by (simp add: order_by_id_desc_def)
  ultimately show ?thesis
    using r(1,2) by blast
qed

theorem append_then_read_newest_witness:
  "system_log (init_db missing_file) = Some \<lparr>log_rows = [], log_seq = 0\<rparr> \<and>
   (\<exists>d' r older.
      insert_log (''2025-11-05 10:00:00'', 90, 50, 50, ''UP'', 10) (init_db missing_file) = Inr d' \<and>
      get_system_logs None d' = Inr (r # older) \<and> show_last_entries 1 d' = Inr [r] \<and>
      sample_of r = (''2025-11-05 10:00:00'', 90, 50, 50, ''UP'', 10) \<and>
      (\<forall>x \<in> set older. log_id x < log_id r))"
proof -
  have h: "system_log (init_db missing_file) = Some \<lparr>log_rows = [], log_seq = 0\<rparr>"
    by (simp add: init_db_def missing_file_def)
  from append_then_read_newest [OF h, of "(''2025-11-05 10:00:00'', 90, 50, 50, ''UP'', 10)"] h
  show ?thesis
    by simp
qed

lemma append_samples_count:
  assumes "system_log d = Some t"
  shows "\<exists>d' t'. append_samples samples d = Inr d' \<and> system_log d' = Some t' \<and>
           length (log_rows t') = length (log_rows t) + length samples \<and>
           alerts_log d' = alerts_log d"
  using assms
proof (induction samples arbitrary: d t)
  case Nil
  then show ?case by simp
next
  case (Cons data rest)
  from insert_log_row [OF Cons.prems, of data] obtain r where
    r: "insert_log data d =
          Inr (d\<lparr>system_log := Some \<lparr>log_rows = log_rows t @ [r], log_seq = log_id r\<rparr>\<rparr>)"
    by blast
  let ?d1 = "d\<lparr>system_log := Some \<lparr>log_rows = log_rows t @ [r], log_seq = log_id r\<rparr>\<rparr>"
  have "system_log ?d1 = Some \<lparr>log_rows = log_rows t @ [r], log_seq = log_id r\<rparr>"
    by simp
  from Cons.IH [OF this] obtain d' t' where
    h: "append_samples rest ?d1 = Inr d'" "system_log d' = Some t'"
      "length (log_rows t') = length (log_rows t @ [r]) + length rest"
      "alerts_log d' = alerts_log ?d1"
    by auto
  have "append_samples (data # rest) d = Inr d'"
    using r h(1) by simp
  with h(2,3,4) show ?case
    by auto
qed

lemma tick_counts:
  assumes "system_log d = Some t" and "alerts_log d = Some a"
  shows "\<exists>d' t' a'. tick flt fstr r d = (None, d') \<and> system_log d' = Some t' \<and>
           alerts_log d' = Some a' \<and> length (log_rows t') = length (log_rows t) + 1"
proof -
  let ?row = "get_system_info flt r"
  from insert_log_row [OF assms(1), of ?row] obtain x where
    x: "insert_log ?row d =
          Inr (d\<lparr>system_log := Some \<lparr>log_rows = log_rows t @ [x], log_seq = log_id x\<rparr>\<rparr>)"
    by blast
  let ?d1 = "d\<lparr>system_log := Some \<lparr>log_rows = log_rows t @ [x], log_seq = log_id x\<rparr>\<rparr>"
  have "alerts_log ?d1 = Some a"
    using assms(2) by simp
  from check_alerts_appends [OF this, of fstr ?row] obtain d' a' where
    h: "check_alerts fstr ?row ?d1 = Inr (alerts_triggered fstr ?row \<noteq> [], d')"
      "alerts_log d' = Some a'" "system_log d' = system_log ?d1"
    by blast
  have "tick flt fstr r d = (None, d')"
    using x h(1) by (simp add: tick_def Let_def)
  with h(2,3) show ?thesis
    by simp
qed

lemma collect_counts:
  assumes "system_log d = Some t" and "alerts_log d = Some a"
  shows "\<exists>d' t' a'. collect flt fstr rs d = (None, d') \<and> system_log d' = Some t' \<and>
           alerts_log d' = Some a' \<and> length (log_rows t') = length (log_rows t) + length rs"
  using assms
proof (induction rs arbitrary: d t a)
  case Nil
  then show ?case by simp
next
  case (Cons r rs)
  from tick_counts [OF Cons.prems, of flt fstr r] obtain d1 t1 a1 where
    one: "tick flt fstr r d = (None, d1)" "system_log d1 = Some t1" "alerts_log d1 = Some a1"
      "length (log_rows t1) = length (log_rows t) + 1"
    by blast
  from Cons.IH [OF one(2,3)] obtain d' t' a' where
    h: "collect flt fstr rs d1 = (None, d')" "system_log d' = Some t'" "alerts_log d' = Some a'"
      "length (log_rows t') = length (log_rows t1) + length rs"
    by blast
  have "collect flt fstr (r # rs) d = (None, d')"
    using one(1) h(1) by simp
  with h(2,3,4) one(4) show ?case
    by simp
qed

text \<open>
  C7. Starting from the empty store that \<open>init_db\<close> creates, after N calls of
  \<open>insert_log\<close> the count of \<open>system_log\<close> is N, in the collector's report and in the
  dashboard's statistics, for every N and whatever the samples; the same holds after
  N ticks of the collector's loop. From any store with both tables, N appends raise
  the count by exactly N.
\<close>

theorem count_after_appends:
  "(\<exists>d'. append_samples samples (init_db missing_file) = Inr d' \<and>
      count_total_records d' = Inr (length samples, 0) \<and>
      (\<exists>stats. get_statistics d' = Inr stats \<and> log_count stats = length samples)) \<and>
   (\<exists>d' n. collect flt fstr rs (init_db missing_file) = (None, d') \<and>
      count_total_records d' = Inr (length rs, n)) \<and>
   (system_log d = Some t \<and> alerts_log d = Some a \<longrightarrow>
      (\<exists>d'. append_samples samples d = Inr d' \<and>
         count_total_records d' = Inr (length (log_rows t) + length samples, length (alert_rows a))))"
proof (intro conjI impI)
  let ?d0 = "init_db missing_file"
  have s0: "system_log ?d0 = Some \<lparr>log_rows = [], log_seq = 0\<rparr>"
    and a0: "alerts_log ?d0 = Some \<lparr>alert_rows = [], alert_seq = 0\<rparr>"
    by (simp_all add: init_db_def missing_file_def)
  from append_samples_count [OF s0, of samples] obtain d' t' where
    h: "append_samples samples ?d0 = Inr d'" "system_log d' = Some t'"
      "length (log_rows t') = length samples" "alerts_log d' = alerts_log ?d0"
    by auto
  have "count_total_records d' = Inr (length samples, 0)"
    using h a0 by (simp add: count_total_records_def)
  moreover have "\<exists>stats. get_statistics d' = Inr stats \<and> log_count stats = length samples"
    using h a0 by (simp add: get_statistics_def split: list.splits)
  ultimately show "\<exists>d'. append_samples samples ?d0 = Inr d' \<and>
      count_total_records d' = Inr (length samples, 0) \<and>
      (\<exists>stats. get_statistics d' = Inr stats \<and> log_count stats = length samples)"
    using h(1) by blast
  from collect_counts [OF s0 a0, of flt fstr rs] obtain d2 t2 a2 where
    c: "collect flt fstr rs ?d0 = (None, d2)" "system_log d2 = Some t2" "alerts_log d2 = Some a2"
      "length (log_rows t2) = length rs"
    by auto
  have "count_total_records d2 = Inr (length rs, length (alert_rows a2))"
    using c by (simp add: count_total_records_def)
  with c(1) show "\<exists>d' n. collect flt fstr rs ?d0 = (None, d') \<and>
      count_total_records d' = Inr (length rs, n)"
    by blast
next
  assume both: "system_log d = Some t \<and> alerts_log d = Some a"
  then have "system_log d = Some t"
    by simp
  from append_samples_count [OF this, of samples] obtain d' t' where
    h: "append_samples samples d = Inr d'" "system_log d' = Some t'"
      "length (log_rows t') = length (log_rows t) + length samples" "alerts_log d' = alerts_log d"
    by auto
  have "count_total_records d' =
      Inr (length (log_rows t) + length samples, length (alert_rows a))"
    using h both by (simp add: count_total_records_def)
  with h(1) show "\<exists>d'. append_samples samples d = Inr d' \<and>
      count_total_records d' = Inr (length (log_rows t) + length samples, length (alert_rows a))"
    by blast
qed

theorem count_after_appends_witness:
  "system_log (init_db missing_file) = Some \<lparr>log_rows = [], log_seq = 0\<rparr> \<and>
   alerts_log (init_db missing_file) = Some \<lparr>alert_rows = [], alert_seq = 0\<rparr> \<and>
   (\<exists>d'. append_samples
            [(''2025-11-05 10:00:00'', 90, 50, 50, ''UP'', 10),
             (''2025-11-05 10:00:10'', 50, 95, 50, ''UP'', 12),
             (''2025-11-05 10:00:20'', 50, 50, 95, ''DOWN'', -1)] (init_db missing_file) = Inr d' \<and>
      count_total_records d' = Inr (3, 0))"
proof -
  have s0: "system_log (init_db missing_file) = Some \<lparr>log_rows = [], log_seq = 0\<rparr>"
    and a0: "alerts_log (init_db missing_file) = Some \<lparr>alert_rows = [], alert_seq = 0\<rparr>"
    by (simp_all add: init_db_def missing_file_def)
  from count_after_appends [of
      "[(''2025-11-05 10:00:00'', 90, 50, 50, ''UP'', 10),
        (''2025-11-05 10:00:10'', 50, 95, 50, ''UP'', 12),
        (''2025-11-05 10:00:20'', 50, 50, 95, ''DOWN'', -1)]"
      decimal_float "\<lambda>v. ''?''" "[]" "init_db missing_file"
      "\<lparr>log_rows = [], log_seq = 0\<rparr>" "\<lparr>alert_rows = [], alert_seq = 0\<rparr>"] s0 a0
  show ?thesis
    by (simp add: numeral_3_eq_3 del: append_samples.simps)
qed

section \<open>The dashboard's queries\<close>

text \<open>
  C8. On a store that has the \<open>system_log\<close> table, the query with the ping filter
  \<open>DOWN\<close> returns exactly the rows whose ping_status is \<open>DOWN\<close>, newest first, and so
  nothing when there is no such row; the unfiltered query, reached with no filter or
  with \<open>All\<close>, returns all the rows, newest first.
\<close>

theorem ping_filter_down:
  assumes "system_log d = Some t"
  shows "\<exists>rows every.
           get_system_logs (Some ''DOWN'') d = Inr rows \<and>
           (\<forall>r \<in> set rows. log_ping_status r = ''DOWN'') \<and>
           mset rows = mset (filter (\<lambda>r. log_ping_status r = ''DOWN'') (log_rows t)) \<and>
           sorted (map (\<lambda>r. - log_id r) rows) \<and>
           ((\<forall>r \<in> set (log_rows t). log_ping_status r \<noteq> ''DOWN'') \<longrightarrow> rows = []) \<and>
           get_system_logs None d = Inr every \<and>
           get_system_logs (Some ''All'') d = Inr every \<and>
           mset every = mset (log_rows t) \<and>
           sorted (map (\<lambda>r. - log_id r) every)"
proof -
  let ?down = "filter (\<lambda>r. log_ping_status r = ''DOWN'') (log_rows t)"
  let ?rows = "order_by_id_desc log_id ?down"
  let ?every = "order_by_id_desc log_id (log_rows t)"
  have q: "get_system_logs (Some ''DOWN'') d = Inr ?rows"
    using assms by (simp add: get_system_logs_def)
  have only: "\<forall>r \<in> set ?rows. log_ping_status r = ''DOWN''"
    by (simp add: order_by_id_desc_def)
  have same: "mset ?rows = mset ?down"
    by (simp add: order_by_id_desc_def)
  have none: "(\<forall>r \<in> set (log_rows t). log_ping_status r \<noteq> ''DOWN'') \<longrightarrow> ?rows = []"
  proof
    assume "\<forall>r \<in> set (log_rows t). log_ping_status r \<noteq> ''DOWN''"
    then have "?down = []"
      by (simp add: filter_empty_conv)
    then show "?rows = []"
      by (simp add: order_by_id_desc_def)
  qed
  have u: "get_system_logs None d = Inr ?every" "get_system_logs (Some ''All'') d = Inr ?every"
    using assms by (simp_all add: get_system_logs_def)
  have all: "mset ?every = mset (log_rows t)"
    by (simp add: order_by_id_desc_def)
  from q only same none u all order_by_id_desc_sorted [of log_id ?down]
    order_by_id_desc_sorted [of log_id "log_rows t"]
  show ?thesis
    by blast
qed

theorem ping_filter_down_witness:
  "system_log three_samples \<noteq> None \<and>
   get_system_logs (Some ''DOWN'') three_samples =
     Inr [\<lparr>log_id = 3, log_timestamp = ''2025-11-05 10:00:20'', log_cpu = 50, log_memory = 50,
           log_disk = 95, log_ping_status = ''DOWN'', log_ping_ms = -1\<rparr>] \<and>
   system_log (init_db missing_file) = Some \<lparr>log_rows = [], log_seq = 0\<rparr> \<and>
   get_system_logs (Some ''DOWN'') (init_db missing_file) = Inr []"
proof -
  have s: "system_log three_samples = Some (the (system_log three_samples))"
    by (simp add: three_samples_def)
  have e: "system_log (init_db missing_file) = Some \<lparr>log_rows = [], log_seq = 0\<rparr>"
    by (simp add: init_db_def missing_file_def)
  have q: "get_system_logs (Some ''DOWN'') three_samples =
     Inr [\<lparr>log_id = 3, log_timestamp = ''2025-11-05 10:00:20'', log_cpu = 50, log_memory = 50,
           log_disk = 95, log_ping_status = ''DOWN'', log_ping_ms = -1\<rparr>]"
    by (simp add: three_samples_def get_system_logs_def order_by_id_desc_def)
  from ping_filter_down [OF s] ping_filter_down [OF e] s e q show ?thesis
    by auto
qed

text \<open>
  C10. With both tables present and no row in \<open>system_log\<close>, the statistics query
  returns log_count 0 and, for the latest sample, the defaults 0 for cpu, memory, disk
  and ping_ms and \<open>N/A\<close> for ping_status. Its alert_count is the number of rows of
  \<open>alerts_log\<close>, whatever \<open>system_log\<close> holds: it is 0 when that table is empty too, as
  it is whenever every alert has the timestamp of a sample.
\<close>

theorem statistics_of_empty_log:
  assumes "system_log d = Some t" and "log_rows t = []" and "alerts_log d = Some a"
  shows "get_statistics d =
           Inr \<lparr>log_count = 0, alert_count = length (alert_rows a), latest_cpu = 0,
                latest_memory = 0, latest_disk = 0, latest_ping_status = ''N/A'',
                latest_ping_ms = 0\<rparr> \<and>
         (alerts_have_sample d \<longrightarrow> length (alert_rows a) = 0)"
proof
  show "get_statistics d =
           Inr \<lparr>log_count = 0, alert_count = length (alert_rows a), latest_cpu = 0,
                latest_memory = 0, latest_disk = 0, latest_ping_status = ''N/A'',
                latest_ping_ms = 0\<rparr>"
    using assms by (simp add: get_statistics_def order_by_id_desc_def)
  show "alerts_have_sample d \<longrightarrow> length (alert_rows a) = 0"
  proof
    assume "alerts_have_sample d"
    then have "\<forall>x \<in> set (alert_rows a). False"
      using assms by (simp add: alerts_have_sample_def all_logs_def all_alerts_def list_all_iff)
    then have "alert_rows a = []"
      by (cases "alert_rows a") auto
    then show "length (alert_rows a) = 0"
      by simp
  qed
qed

theorem statistics_of_empty_log_witness:
  "system_log (init_db missing_file) = Some \<lparr>log_rows = [], log_seq = 0\<rparr> \<and>
   alerts_log (init_db missing_file) = Some \<lparr>alert_rows = [], alert_seq = 0\<rparr> \<and>
   alerts_have_sample (init_db missing_file) \<and>
   get_statistics (init_db missing_file) =
     Inr \<lparr>log_count = 0, alert_count = 0, latest_cpu = 0, latest_memory = 0, latest_disk = 0,
          latest_ping_status = ''N/A'', latest_ping_ms = 0\<rparr>"
proof -
  have s: "system_log (init_db missing_file) = Some \<lparr>log_rows = [], log_seq = 0\<rparr>"
    and a: "alerts_log (init_db missing_file) = Some \<lparr>alert_rows = [], alert_seq = 0\<rparr>"
    by (simp_all add: init_db_def missing_file_def)
  have i: "alerts_have_sample (init_db missing_file)"
    by (simp add: alerts_have_sample_def all_alerts_def a)
  from statistics_of_empty_log [OF s _ a] s a i show ?thesis
    by simp
qed

theorem statistics_of_empty_log_counterexample:
  "system_log orphan_alert = Some \<lparr>log_rows = [], log_seq = 0\<rparr> \<and>
   get_statistics orphan_alert =
     Inr \<lparr>log_count = 0, alert_count = 1, latest_cpu = 0, latest_memory = 0, latest_disk = 0,
          latest_ping_status = ''N/A'', latest_ping_ms = 0\<rparr> \<and>
   system_log samples_only = Some \<lparr>log_rows = [], log_seq = 0\<rparr> \<and>
   get_statistics samples_only = Inl (OperationalError ''no such table: alerts_log'')"
  by (simp add: orphan_alert_def samples_only_def get_statistics_def order_by_id_desc_def
      no_such_table_def)

end
